theory Spec2Isabelle
  imports Main "HOL-Library.Word"
begin

section \<open>Data model of package rpc\<close>

text \<open>
  Go's \<open>int64\<close> is a 64-bit word: \<open>++\<close> and \<open>atomic.AddInt64\<close> wrap around, and
  comparisons read the word as two's complement (\<open>sint\<close>). \<open>time.Duration\<close> is an
  \<open>int64\<close> as well.
\<close>

type_synonym int64 = "64 word"

text \<open>A Go \<open>error\<close> value is identified by its message.\<close>

datatype error = errors_New string

text \<open>
  What \<open>encoding/json\<close> stores in an \<open>interface{}\<close>: nil, bool, float64, string,
  slice and map. The numbers stay opaque, no function of the package inspects them.
\<close>

typedecl float64

datatype jvalue =
    JNull
  | JBool bool
  | JNumber float64
  | JString string
  | JArray "jvalue list"
  | JObject "(string \<times> jvalue) list"

type_synonym RawMessage = string

text \<open>
  \<open>JSONRpcResp\<close>: the pointers \<open>Id\<close> and \<open>Result\<close> are \<open>None\<close> when nil, and so
  is the map \<open>Error\<close> (a JSON \<open>null\<close> or an absent key leaves it nil, an object,
  also the empty one, makes it non-nil).
\<close>

record JSONRpcResp =
  Id :: "RawMessage option"
  Result :: "RawMessage option"
  Error :: "(string \<rightharpoonup> jvalue) option"

text \<open>
  The reply structs. Go's \<open>int\<close> is taken at its 64-bit width. A field name that
  occurs in more than one struct carries a prefix in all but one of them
  (\<open>HeaderHeight\<close>, \<open>InfoHeight\<close>, \<open>CountStatus\<close>, ...).
\<close>

record GetBlockTemplateReply =
  Difficulty :: int64
  Height :: int64
  Blob :: string
  ReservedOffset :: int64
  PrevHash :: string
  ExpectedReward :: int64

record BlockHeader =
  BlockSize :: int64
  Depth :: int64
  HeaderDifficulty :: int64
  Hash :: string
  HeaderHeight :: int64
  MajorVersion :: int64
  MinorVersion :: int64
  Nonce :: "32 word"
  NumTxes :: int64
  OrphanStatus :: bool
  HeaderPrevHash :: string
  Reward :: int64
  Timestamp :: "32 word"

record GetBlockHeaderReply =
  BlockHeader :: BlockHeader
  HeaderStatus :: string
  Untrusted :: bool

record GetBlockCountReply =
  Count :: int64
  CountStatus :: string

record GetInfoReply =
  IncomingConnections :: int64
  OutgoingConnections :: int64
  InfoHeight :: int64
  TxPoolSize :: int64
  Status :: string

text \<open>
  Modelled from the spec: \<open>pool.Upstream\<close>, the upstream descriptor, is declared in
  package \<open>pool\<close>. Section 6 of the specification gives its fields: host, port, a
  logical name and a timeout duration string. The type of the port is not known here,
  so it is a type parameter and its \<open>%v\<close> rendering is an argument of \<open>NewRPCClient\<close>.
\<close>

record 'p Upstream =
  Host :: string
  Port :: 'p
  UpstreamName :: string
  UpstreamTimeout :: string

text \<open>A parsed \<open>url.URL\<close>, kept as the text \<open>String()\<close> gives back.\<close>

datatype URL = URL string

record http_Client =
  Timeout :: int64

text \<open>
  \<open>RPCClient\<close>. The pointer \<open>client\<close> is \<open>None\<close> while nil. The \<open>atomic.Value\<close>
  \<open>info\<close> is \<open>None\<close> until the first \<open>Store\<close>; afterwards it holds a
  \<open>*GetInfoReply\<close>, which may itself be the nil pointer.
\<close>

record RPCClient =
  sickRate :: int64
  successRate :: int64
  Accepts :: int64
  Rejects :: int64
  LastSubmissionAt :: int64
  FailsCount :: int64
  Url :: URL
  Name :: string
  sick :: bool
  client :: "http_Client option"
  info :: "GetInfoReply option option"

section \<open>Health state\<close>

definition Sick :: "RPCClient \<Rightarrow> bool" where
  "Sick r = sick r"

definition markSick :: "RPCClient \<Rightarrow> RPCClient" where
  "markSick r =
     (let r1 = (if \<not> sick r then r\<lparr>FailsCount := FailsCount r + 1\<rparr> else r);
          r2 = r1\<lparr>sickRate := sickRate r1 + 1\<rparr>;
          r3 = r2\<lparr>successRate := 0\<rparr>
      in if 5 \<le> sint (sickRate r3) then r3\<lparr>sick := True\<rparr> else r3)"

definition markAlive :: "RPCClient \<Rightarrow> RPCClient" where
  "markAlive r =
     (let r1 = r\<lparr>successRate := successRate r + 1\<rparr>
      in if 5 \<le> sint (successRate r1)
         then r1\<lparr>sick := False, sickRate := 0, successRate := 0\<rparr>
         else r1)"

text \<open>
  Histories of notifications, to speak about every interleaving of the two transitions:
  \<open>notifications r es\<close> is the client after the notifications \<open>es\<close>, oldest first.
\<close>

datatype notification = Failure | Success

fun notify :: "notification \<Rightarrow> RPCClient \<Rightarrow> RPCClient" where
  "notify Failure r = markSick r"
| "notify Success r = markAlive r"

fun notifications :: "RPCClient \<Rightarrow> notification list \<Rightarrow> RPCClient" where
  "notifications r [] = r"
| "notifications r (e # es) = notifications (notify e r) es"

text \<open>
  The range the streak counters stay in: \<open>successRate\<close> is one of 0..4, and so is
  \<open>sickRate\<close> while the client is not Sick.
\<close>

definition counters_in_range :: "RPCClient \<Rightarrow> bool" where
  "counters_in_range r =
     ((\<exists>i<5. successRate r = of_nat i) \<and> (sick r \<or> (\<exists>j<5. sickRate r = of_nat j)))"

section \<open>Construction\<close>

definition SetClient :: "RPCClient \<Rightarrow> http_Client \<Rightarrow> RPCClient" where
  "SetClient r c = r\<lparr>client := Some c\<rparr>"

text \<open>
  \<open>NewRPCClient\<close>. The library functions are arguments: \<open>fmt_v\<close> renders the port
  as \<open>%v\<close> does, \<open>url_Parse\<close> is \<open>url.Parse\<close> and \<open>time_ParseDuration\<close> is
  \<open>time.ParseDuration\<close>, which returns the zero duration together with its error; the
  source drops that error (\<open>timeout, _ :=\<close>). The descriptor \<open>cfg\<close> is the
  struct behind a non-nil pointer. A Go result pair \<open>(x, err)\<close> is a pair of
  options, \<open>None\<close> for nil. \<open>RPCClient_literal\<close> is the composite literal
  \<open>&RPCClient{Name: ..., Url: ...}\<close>, which leaves every other field at its zero value.
\<close>

definition RPCClient_literal :: "string \<Rightarrow> URL \<Rightarrow> RPCClient" where
  "RPCClient_literal name url =
     \<lparr>sickRate = 0, successRate = 0, Accepts = 0, Rejects = 0,
      LastSubmissionAt = 0, FailsCount = 0, Url = url,
      Name = name, sick = False, client = None, info = None\<rparr>"

definition NewRPCClient ::
  "('p \<Rightarrow> string) \<Rightarrow> (string \<Rightarrow> error + URL) \<Rightarrow> (string \<Rightarrow> error + int64) \<Rightarrow>
   'p Upstream \<Rightarrow> RPCClient option \<times> error option" where
  "NewRPCClient fmt_v url_Parse time_ParseDuration cfg =
     (let rawUrl = ''http://'' @ Host cfg @ '':'' @ fmt_v (Port cfg) @ ''/json_rpc''
      in case url_Parse rawUrl of
           Inl err \<Rightarrow> (None, Some err)
         | Inr url \<Rightarrow>
             (let rpcClient = RPCClient_literal (UpstreamName cfg) url;
                  timeout = (case time_ParseDuration (UpstreamTimeout cfg) of
                               Inl _ \<Rightarrow> 0
                             | Inr d \<Rightarrow> d)
              in (Some (SetClient rpcClient \<lparr>Timeout = timeout\<rparr>), None)))"

section \<open>Transport\<close>

text \<open>
  One HTTP round trip as \<open>doPost\<close> sees it. \<open>r.client.Do(req)\<close> either fails
  (\<open>DoError\<close>) or yields a response with a status code, a status line and a body; of
  the body only the outcome of \<open>json.NewDecoder(resp.Body).Decode(&rpcResp)\<close> matters:
  an error, or the pointer \<open>rpcResp\<close>, which the body \<open>null\<close> leaves nil.
  The request (URL, method name, parameters) only goes out on the wire: no branch of the
  package depends on it, so the functions below take the round trip that came back.
  They are about calls in which \<open>Do\<close> ran: the request was built from the URL parsed
  at construction and the HTTP client is the one \<open>NewRPCClient\<close> set.
\<close>

datatype body_decode = DecodeError error | Decoded "JSONRpcResp option"

datatype round_trip = DoError error | DoResponse int string body_decode

text \<open>A call either returns its Go result pair or panics.\<close>

datatype panic = NilPointerDereference | InterfaceConversion

datatype 'a outcome = Returned 'a | Panicked panic

definition doPost ::
  "RPCClient \<Rightarrow> round_trip \<Rightarrow> RPCClient \<times> (JSONRpcResp option \<times> error option) outcome" where
  "doPost r rt =
     (case rt of
        DoError err \<Rightarrow> (markSick r, Returned (None, Some err))
      | DoResponse code status body \<Rightarrow>
          if code < 200 \<or> code \<ge> 400 then (r, Returned (None, Some (errors_New status)))
          else (case body of
                  DecodeError err \<Rightarrow> (markSick r, Returned (None, Some err))
                | Decoded None \<Rightarrow> (r, Panicked NilPointerDereference)
                | Decoded (Some rpcResp) \<Rightarrow>
                    (case Error rpcResp of
                       Some e \<Rightarrow>
                         (case e ''message'' of
                            Some (JString m) \<Rightarrow>
                              (markSick r, Returned (None, Some (errors_New m)))
                          | _ \<Rightarrow> (markSick r, Panicked InterfaceConversion))
                     | None \<Rightarrow> (r, Returned (Some rpcResp, None)))))"

section \<open>Typed calls\<close>

text \<open>
  Each typed call takes \<open>unmarshal\<close>, the outcome of \<open>json.Unmarshal(*rpcResp.Result,
  &reply)\<close>: the pointer \<open>reply\<close> afterwards and the error. The source returns both as
  they are, so a reply and an error can come back together.
\<close>

definition GetBlockTemplate ::
  "(RawMessage \<Rightarrow> GetBlockTemplateReply option \<times> error option) \<Rightarrow> RPCClient \<Rightarrow> round_trip \<Rightarrow>
   RPCClient \<times> (GetBlockTemplateReply option \<times> error option) outcome" where
  "GetBlockTemplate unmarshal r rt =
     (case doPost r rt of
        (r', Panicked p) \<Rightarrow> (r', Panicked p)
      | (r', Returned (rpcResp, Some err)) \<Rightarrow> (r', Returned (None, Some err))
      | (r', Returned (None, None)) \<Rightarrow> (r', Panicked NilPointerDereference)
      | (r', Returned (Some resp, None)) \<Rightarrow>
          (case Result resp of
             Some raw \<Rightarrow> (r', Returned (unmarshal raw))
           | None \<Rightarrow> (r', Returned (None, None))))"

definition GetInfo ::
  "(RawMessage \<Rightarrow> GetInfoReply option \<times> error option) \<Rightarrow> RPCClient \<Rightarrow> round_trip \<Rightarrow>
   RPCClient \<times> (GetInfoReply option \<times> error option) outcome" where
  "GetInfo unmarshal r rt =
     (case doPost r rt of
        (r', Panicked p) \<Rightarrow> (r', Panicked p)
      | (r', Returned (rpcResp, Some err)) \<Rightarrow> (r', Returned (None, Some err))
      | (r', Returned (None, None)) \<Rightarrow> (r', Panicked NilPointerDereference)
      | (r', Returned (Some resp, None)) \<Rightarrow>
          (case Result resp of
             Some raw \<Rightarrow> (r', Returned (unmarshal raw))
           | None \<Rightarrow> (r', Returned (None, None))))"

definition GetBlockCount ::
  "(RawMessage \<Rightarrow> GetBlockCountReply option \<times> error option) \<Rightarrow> RPCClient \<Rightarrow> round_trip \<Rightarrow>
   RPCClient \<times> (GetBlockCountReply option \<times> error option) outcome" where
  "GetBlockCount unmarshal r rt =
     (case doPost r rt of
        (r', Panicked p) \<Rightarrow> (r', Panicked p)
      | (r', Returned (rpcResp, Some err)) \<Rightarrow> (r', Returned (None, Some err))
      | (r', Returned (None, None)) \<Rightarrow> (r', Panicked NilPointerDereference)
      | (r', Returned (Some resp, None)) \<Rightarrow>
          (case Result resp of
             Some raw \<Rightarrow> (r', Returned (unmarshal raw))
           | None \<Rightarrow> (r', Returned (None, None))))"

definition SubmitBlock ::
  "RPCClient \<Rightarrow> round_trip \<Rightarrow> RPCClient \<times> (JSONRpcResp option \<times> error option) outcome" where
  "SubmitBlock r rt = doPost r rt"

definition GetBlockHeaderByHeight ::
  "(RawMessage \<Rightarrow> GetBlockHeaderReply option \<times> error option) \<Rightarrow> RPCClient \<Rightarrow> round_trip \<Rightarrow>
   RPCClient \<times> (GetBlockHeaderReply option \<times> error option) outcome" where
  "GetBlockHeaderByHeight unmarshal r rt =
     (case doPost r rt of
        (r', Panicked p) \<Rightarrow> (r', Panicked p)
      | (r', Returned (rpcResp, Some err)) \<Rightarrow> (r', Returned (None, Some err))
      | (r', Returned (None, None)) \<Rightarrow> (r', Panicked NilPointerDereference)
      | (r', Returned (Some resp, None)) \<Rightarrow>
          (case Result resp of
             Some raw \<Rightarrow> (r', Returned (unmarshal raw))
           | None \<Rightarrow> (r', Returned (None, None))))"

section \<open>Liveness check and info cache\<close>

definition Check ::
  "(RawMessage \<Rightarrow> GetBlockTemplateReply option \<times> error option) \<Rightarrow> RPCClient \<Rightarrow> round_trip \<Rightarrow>
   RPCClient \<times> (bool \<times> error option) outcome" where
  "Check unmarshal r rt =
     (case GetBlockTemplate unmarshal r rt of
        (r', Panicked p) \<Rightarrow> (r', Panicked p)
      | (r', Returned (reply, Some err)) \<Rightarrow> (r', Returned (False, Some err))
      | (r', Returned (reply, None)) \<Rightarrow>
          (let r'' = markAlive r' in (r'', Returned (\<not> Sick r'', None))))"

definition UpdateInfo ::
  "(RawMessage \<Rightarrow> GetInfoReply option \<times> error option) \<Rightarrow> RPCClient \<Rightarrow> round_trip \<Rightarrow>
   RPCClient \<times> (GetInfoReply option \<times> error option) outcome" where
  "UpdateInfo unmarshal r rt =
     (case GetInfo unmarshal r rt of
        (r', Panicked p) \<Rightarrow> (r', Panicked p)
      | (r', Returned (reply, err)) \<Rightarrow>
          ((if err = None then r'\<lparr>info := Some reply\<rparr> else r'), Returned (reply, err)))"

definition Info :: "RPCClient \<Rightarrow> GetInfoReply option" where
  "Info r = (case info r of None \<Rightarrow> None | Some reply \<Rightarrow> reply)"

section \<open>Shared lemmas on the health transitions\<close>

lemma markSick_keeps_sick: "sick r \<Longrightarrow> sick (markSick r)"
  by (simp add: markSick_def Let_def)

lemma markSick_pow_keeps_sick: "sick r \<Longrightarrow> sick ((markSick ^^ n) r)"
  by (induction n) (simp_all add: markSick_keeps_sick)

lemma markSick_sick_FailsCount: "sick r \<Longrightarrow> FailsCount (markSick r) = FailsCount r"
  by (simp add: markSick_def Let_def)

lemma markSick_pow_sick_FailsCount:
  "sick r \<Longrightarrow> FailsCount ((markSick ^^ n) r) = FailsCount r"
  by (induction n) (simp_all add: markSick_sick_FailsCount markSick_pow_keeps_sick)

lemma less_five_cases: "k < 5 \<Longrightarrow> k = 0 \<or> k = Suc 0 \<or> k = 2 \<or> k = 3 \<or> k = (4::nat)"
  by arith

lemma less_four_cases: "k < 4 \<Longrightarrow> k = 0 \<or> k = Suc 0 \<or> k = 2 \<or> k = (3::nat)"
  by arith

lemma markAlive_below:
  assumes "successRate r = of_nat i" and "i < 4"
  shows "markAlive r = r\<lparr>successRate := of_nat (Suc i)\<rparr>"
proof -
  consider "i = 0" | "i = Suc 0" | "i = 2" | "i = 3"
    using assms(2) less_four_cases by blast
  then show ?thesis
    using assms(1) by cases (simp_all add: markAlive_def Let_def)
qed

lemma markAlive_fifth:
  "successRate r = 4 \<Longrightarrow> markAlive r = r\<lparr>successRate := 0, sickRate := 0, sick := False\<rparr>"
  by (simp add: markAlive_def Let_def)

lemma markAlive_pow_below:
  "successRate r = of_nat j \<Longrightarrow> k + j < 5 \<Longrightarrow>
   (markAlive ^^ k) r = r\<lparr>successRate := of_nat (k + j)\<rparr>"
proof (induction k)
  case 0
  then show ?case by simp
next
  case (Suc k)
  have eq: "(markAlive ^^ k) r = r\<lparr>successRate := of_nat (k + j)\<rparr>"
    using Suc.IH [OF Suc.prems(1)] Suc.prems(2) by linarith
  have lt: "k + j < 4"
    using Suc.prems(2) by linarith
  have "successRate (r\<lparr>successRate := of_nat (k + j)\<rparr>) = of_nat (k + j)"
    by simp
  then have "markAlive (r\<lparr>successRate := of_nat (k + j)\<rparr>)
          = r\<lparr>successRate := of_nat (k + j)\<rparr>\<lparr>successRate := of_nat (Suc (k + j))\<rparr>"
    using lt by (rule markAlive_below)
  then have "markAlive ((markAlive ^^ k) r) = r\<lparr>successRate := of_nat (Suc (k + j))\<rparr>"
    unfolding eq by simp
  then show ?case
    by (simp only: funpow.simps o_apply add_Suc)
qed

lemma markSick_below:
  assumes "\<not> sick r" and "sickRate r = of_nat i" and "i < 4"
  shows "markSick r = r\<lparr>FailsCount := FailsCount r + 1, sickRate := of_nat (Suc i), successRate := 0\<rparr>"
proof -
  consider "i = 0" | "i = Suc 0" | "i = 2" | "i = 3"
    using assms(3) less_four_cases by blast
  then show ?thesis
    using assms(1,2) by cases (simp_all add: markSick_def Let_def)
qed

lemma markSick_fifth:
  "\<not> sick r \<Longrightarrow> sickRate r = 4 \<Longrightarrow>
   markSick r = r\<lparr>FailsCount := FailsCount r + 1, sickRate := 5, successRate := 0, sick := True\<rparr>"
  by (simp add: markSick_def Let_def)

lemma markSick_successRate: "successRate (markSick r) = 0"
  by (simp add: markSick_def Let_def)

lemma counters_in_rangeI:
  "i < 5 \<Longrightarrow> successRate r = of_nat i \<Longrightarrow> sick r \<or> (j < 5 \<and> sickRate r = of_nat j) \<Longrightarrow>
   counters_in_range r"
  unfolding counters_in_range_def by blast

lemma counters_in_range_markSick:
  assumes "counters_in_range r"
  shows "counters_in_range (markSick r)"
proof (cases "sick r")
  case True
  then have "sick (markSick r)" by (rule markSick_keeps_sick)
  then show ?thesis
    by (intro counters_in_rangeI [of 0 _ 0]) (simp_all add: markSick_successRate)
next
  case False
  then obtain j where j: "j < 5" "sickRate r = of_nat j"
    using assms unfolding counters_in_range_def by blast
  show ?thesis
  proof (cases "j < 4")
    case True
    have "markSick r = r\<lparr>FailsCount := FailsCount r + 1, sickRate := of_nat (Suc j), successRate := 0\<rparr>"
      using False j(2) True by (rule markSick_below)
    then have "sickRate (markSick r) = of_nat (Suc j)" by simp
    then show ?thesis
      using True by (intro counters_in_rangeI [of 0 _ "Suc j"]) (simp_all add: markSick_successRate)
  next
    case no: False
    then have "j = 4" using j(1) by simp
    then have "sick (markSick r)"
      using False j(2) by (simp add: markSick_fifth)
    then show ?thesis
      by (intro counters_in_rangeI [of 0 _ 0]) (simp_all add: markSick_successRate)
  qed
qed

lemma counters_in_range_markAlive:
  assumes "counters_in_range r"
  shows "counters_in_range (markAlive r)"
proof -
  obtain i where i: "i < 5" "successRate r = of_nat i"
    using assms unfolding counters_in_range_def by blast
  have sr: "sick r \<or> (\<exists>j<5. sickRate r = of_nat j)"
    using assms unfolding counters_in_range_def by blast
  show ?thesis
  proof (cases "i < 4")
    case True
    have eq: "markAlive r = r\<lparr>successRate := of_nat (Suc i)\<rparr>"
      using i(2) True by (rule markAlive_below)
    have "\<exists>i'<5. successRate (markAlive r) = of_nat i'"
    proof (intro exI conjI)
      show "Suc i < 5" using True by simp
      show "successRate (markAlive r) = of_nat (Suc i)" unfolding eq by simp
    qed
    moreover have "sick (markAlive r) \<or> (\<exists>j<5. sickRate (markAlive r) = of_nat j)"
      using sr unfolding eq by simp
    ultimately show ?thesis
      unfolding counters_in_range_def by blast
  next
    case False
    then have "i = 4" using i(1) by simp
    then have "markAlive r = r\<lparr>successRate := 0, sickRate := 0, sick := False\<rparr>"
      using i(2) by (simp add: markAlive_fifth)
    then show ?thesis
      by (intro counters_in_rangeI [of 0 _ 0]) simp_all
  qed
qed

lemma counters_in_range_notifications:
  "counters_in_range r \<Longrightarrow> counters_in_range (notifications r es)"
proof (induction es arbitrary: r)
  case Nil
  then show ?case by simp
next
  case (Cons e es)
  have "counters_in_range (notify e r)"
    using Cons.prems
    by (cases e) (simp_all add: counters_in_range_markSick counters_in_range_markAlive)
  then show ?case
    using Cons.IH by simp
qed

lemma counters_in_range_initial:
  "\<not> sick r \<Longrightarrow> sickRate r = 0 \<Longrightarrow> successRate r = 0 \<Longrightarrow> counters_in_range r"
  by (intro counters_in_rangeI [of 0 _ 0]) simp_all

lemma sint_small: "j < 5 \<Longrightarrow> sint (of_nat j :: int64) = int j"
proof -
  assume "j < 5"
  then consider "j = 0" | "j = Suc 0" | "j = 2" | "j = 3" | "j = 4"
    using less_five_cases by blast
  then show ?thesis by cases simp_all
qed

lemma markAlive_FailsCount: "FailsCount (markAlive r) = FailsCount r"
  by (simp add: markAlive_def Let_def)

lemma failure_run_FailsCount:
  "\<not> sick r \<Longrightarrow> sickRate r = of_nat j \<Longrightarrow> j < 5 \<Longrightarrow>
   FailsCount ((markSick ^^ n) r) = FailsCount r + of_nat (min n (5 - j))"
proof (induction n arbitrary: r j)
  case 0
  then show ?case by simp
next
  case (Suc n)
  have unroll: "(markSick ^^ Suc n) r = (markSick ^^ n) (markSick r)"
    by (simp only: funpow_Suc_right o_apply)
  show ?case
  proof (cases "j < 4")
    case True
    have eq: "markSick r = r\<lparr>FailsCount := FailsCount r + 1, sickRate := of_nat (Suc j), successRate := 0\<rparr>"
      using Suc.prems(1,2) True by (rule markSick_below)
    have fc: "FailsCount (markSick r) = FailsCount r + 1"
      unfolding eq by simp
    have "\<not> sick (markSick r)" and "sickRate (markSick r) = of_nat (Suc j)"
      using Suc.prems(1) unfolding eq by simp_all
    moreover have "Suc j < 5" using True by simp
    ultimately have "FailsCount ((markSick ^^ n) (markSick r))
                       = FailsCount (markSick r) + of_nat (min n (5 - Suc j))"
      by (rule Suc.IH)
    moreover have "min (Suc n) (5 - j) = Suc (min n (5 - Suc j))"
      using True by simp
    ultimately show ?thesis
      unfolding unroll fc by simp
  next
    case False
    then have j4: "j = 4" using Suc.prems(3) by simp
    then have eq: "markSick r = r\<lparr>FailsCount := FailsCount r + 1, sickRate := 5, successRate := 0, sick := True\<rparr>"
      using Suc.prems(1,2) by (simp add: markSick_fifth)
    have "sick (markSick r)" and fc: "FailsCount (markSick r) = FailsCount r + 1"
      unfolding eq by simp_all
    then have "FailsCount ((markSick ^^ n) (markSick r)) = FailsCount r + 1"
      by (simp add: markSick_pow_sick_FailsCount)
    moreover have "min (Suc n) (5 - j) = 1"
      using j4 by simp
    ultimately show ?thesis
      unfolding unroll by simp
  qed
qed

lemma markAlive_after_markSick: "markAlive (markSick r) = (markSick r)\<lparr>successRate := 1\<rparr>"
proof -
  have "successRate (markSick r) = of_nat 0"
    by (simp add: markSick_successRate)
  then have "markAlive (markSick r) = (markSick r)\<lparr>successRate := of_nat (Suc 0)\<rparr>"
    by (rule markAlive_below) simp
  then show ?thesis by simp
qed

section \<open>Shared lemmas on the calls\<close>

lemma markSick_sickRate: "sickRate (markSick r) = sickRate r + 1"
  by (simp add: markSick_def Let_def)

lemma markSick_neq: "markSick r \<noteq> r"
proof
  assume "markSick r = r"
  then have "sickRate (markSick r) = sickRate r" by simp
  then show False by (simp add: markSick_sickRate)
qed

lemma markSick_info: "info (markSick r) = info r"
  by (simp add: markSick_def Let_def)

lemma markAlive_successRate_neq: "successRate (markAlive r) \<noteq> successRate r"
proof (cases "5 \<le> sint (successRate r + 1)")
  case True
  then have "successRate (markAlive r) = 0"
    by (simp add: markAlive_def Let_def)
  moreover have "successRate r \<noteq> 0"
    using True by auto
  ultimately show ?thesis by simp
next
  case False
  then have "successRate (markAlive r) = successRate r + 1"
    by (simp add: markAlive_def Let_def)
  then show ?thesis by simp
qed

lemma markAlive_neq: "markAlive r \<noteq> r"
  using markAlive_successRate_neq [of r] by auto

lemma doPost_DoError: "doPost r (DoError err) = (markSick r, Returned (None, Some err))"
  by (simp add: doPost_def)

lemma doPost_status:
  "code < 200 \<or> 400 \<le> code \<Longrightarrow>
   doPost r (DoResponse code status body) = (r, Returned (None, Some (errors_New status)))"
  by (auto simp add: doPost_def)

lemma doPost_DecodeError:
  "200 \<le> code \<Longrightarrow> code < 400 \<Longrightarrow>
   doPost r (DoResponse code status (DecodeError err)) = (markSick r, Returned (None, Some err))"
  by (simp add: doPost_def)

lemma doPost_nil:
  "200 \<le> code \<Longrightarrow> code < 400 \<Longrightarrow>
   doPost r (DoResponse code status (Decoded None)) = (r, Panicked NilPointerDereference)"
  by (simp add: doPost_def)


lemma doPost_app_error_message:
  "200 \<le> code \<Longrightarrow> code < 400 \<Longrightarrow> Error resp = Some e \<Longrightarrow> e ''message'' = Some (JString m) \<Longrightarrow>
   doPost r (DoResponse code status (Decoded (Some resp)))
     = (markSick r, Returned (None, Some (errors_New m)))"
  by (simp add: doPost_def)

lemma doPost_app_error_panic:
  "200 \<le> code \<Longrightarrow> code < 400 \<Longrightarrow> Error resp = Some e \<Longrightarrow> \<forall>m. e ''message'' \<noteq> Some (JString m) \<Longrightarrow>
   doPost r (DoResponse code status (Decoded (Some resp)))
     = (markSick r, Panicked InterfaceConversion)"
  by (simp add: doPost_def split: option.split jvalue.split)

lemma doPost_ok:
  "200 \<le> code \<Longrightarrow> code < 400 \<Longrightarrow> Error resp = None \<Longrightarrow>
   doPost r (DoResponse code status (Decoded (Some resp))) = (r, Returned (Some resp, None))"
  by (simp add: doPost_def)

lemma doPost_cases:
  obtains
    (conn) err where "rt = DoError err" "doPost r rt = (markSick r, Returned (None, Some err))"
  | (status) code st body where "rt = DoResponse code st body"
      "doPost r rt = (r, Returned (None, Some (errors_New st)))"
  | (decode) code st err where "rt = DoResponse code st (DecodeError err)"
      "doPost r rt = (markSick r, Returned (None, Some err))"
  | (nil) "doPost r rt = (r, Panicked NilPointerDereference)"
  | (app) m where "doPost r rt = (markSick r, Returned (None, Some (errors_New m)))"
  | (assertion) "doPost r rt = (markSick r, Panicked InterfaceConversion)"
  | (ok) resp where "Error resp = None" "doPost r rt = (r, Returned (Some resp, None))"
proof (cases rt)
  case (DoError err)
  then show ?thesis using conn by (simp add: doPost_DoError)
next
  case (DoResponse code st body)
  show ?thesis
  proof (cases "code < 200 \<or> 400 \<le> code")
    case True
    then show ?thesis using status DoResponse by (simp add: doPost_status)
  next
    case False
    then have range: "200 \<le> code" "code < 400" by simp_all
    show ?thesis
    proof (cases body)
      case (DecodeError err)
      then show ?thesis using decode DoResponse range by (simp add: doPost_DecodeError)
    next
      case (Decoded p)
      show ?thesis
      proof (cases p)
        case None
        then show ?thesis using nil DoResponse Decoded range by (simp add: doPost_nil)
      next
        case (Some resp)
        show ?thesis
        proof (cases "Error resp")
          case None
          then show ?thesis using ok DoResponse Decoded Some range by (simp add: doPost_ok)
        next
          case (Some e)
          show ?thesis
          proof (cases "\<exists>m. e ''message'' = Some (JString m)")
            case True
            then obtain m where "e ''message'' = Some (JString m)" by blast
            then show ?thesis
              using app DoResponse Decoded \<open>p = Some resp\<close> Some range
              by (simp add: doPost_app_error_message)
          next
            case False
            then have "\<forall>m. e ''message'' \<noteq> Some (JString m)" by blast
            then show ?thesis
              using assertion DoResponse Decoded \<open>p = Some resp\<close> Some range
              by (simp add: doPost_app_error_panic)
          qed
        qed
      qed
    qed
  qed
qed

lemma GetBlockTemplate_no_error:
  "snd (GetBlockTemplate u r rt) = Returned (x, None) \<Longrightarrow> fst (GetBlockTemplate u r rt) = r"
  by (cases rule: doPost_cases [of rt r])
     (auto simp add: GetBlockTemplate_def markSick_neq split: option.splits)

lemma GetInfo_no_error:
  "snd (GetInfo u r rt) = Returned (x, None) \<Longrightarrow> fst (GetInfo u r rt) = r"
  by (cases rule: doPost_cases [of rt r])
     (auto simp add: GetInfo_def split: option.splits)

lemma GetBlockCount_no_error:
  "snd (GetBlockCount u r rt) = Returned (x, None) \<Longrightarrow> fst (GetBlockCount u r rt) = r"
  by (cases rule: doPost_cases [of rt r])
     (auto simp add: GetBlockCount_def split: option.splits)

lemma SubmitBlock_no_error:
  "snd (SubmitBlock r rt) = Returned (x, None) \<Longrightarrow> fst (SubmitBlock r rt) = r"
  by (cases rule: doPost_cases [of rt r])
     (auto simp add: SubmitBlock_def split: option.splits)

lemma GetBlockHeaderByHeight_no_error:
  "snd (GetBlockHeaderByHeight u r rt) = Returned (x, None) \<Longrightarrow>
   fst (GetBlockHeaderByHeight u r rt) = r"
  by (cases rule: doPost_cases [of rt r])
     (auto simp add: GetBlockHeaderByHeight_def split: option.splits)

lemma GetBlockTemplate_state: "fst (GetBlockTemplate u r rt) \<in> {r, markSick r}"
  by (cases rule: doPost_cases [of rt r])
     (auto simp add: GetBlockTemplate_def split: option.splits)

lemma GetInfo_state: "fst (GetInfo u r rt) \<in> {r, markSick r}"
  by (cases rule: doPost_cases [of rt r])
     (auto simp add: GetInfo_def split: option.splits)

lemma GetBlockCount_state: "fst (GetBlockCount u r rt) \<in> {r, markSick r}"
  by (cases rule: doPost_cases [of rt r])
     (auto simp add: GetBlockCount_def split: option.splits)

lemma SubmitBlock_state: "fst (SubmitBlock r rt) \<in> {r, markSick r}"
  by (cases rule: doPost_cases [of rt r])
     (auto simp add: SubmitBlock_def split: option.splits)

lemma GetBlockHeaderByHeight_state: "fst (GetBlockHeaderByHeight u r rt) \<in> {r, markSick r}"
  by (cases rule: doPost_cases [of rt r])
     (auto simp add: GetBlockHeaderByHeight_def split: option.splits)

lemma Check_no_error:
  assumes "snd (Check u r rt) = Returned (b, None)"
  shows "fst (Check u r rt) = markAlive r \<and> b = (\<not> Sick (markAlive r))"
proof (cases "GetBlockTemplate u r rt")
  case (Pair r' out)
  show ?thesis
  proof (cases out)
    case (Panicked p)
    then show ?thesis using assms Pair by (simp add: Check_def)
  next
    case (Returned res)
    obtain reply err where res: "res = (reply, err)" by (cases res)
    show ?thesis
    proof (cases err)
      case (Some e)
      then show ?thesis using assms Pair Returned res by (simp add: Check_def)
    next
      case None
      then have "snd (GetBlockTemplate u r rt) = Returned (reply, None)"
        using Pair Returned res by simp
      then have "fst (GetBlockTemplate u r rt) = r"
        by (rule GetBlockTemplate_no_error)
      then have "r' = r" using Pair by simp
      then show ?thesis
        using assms Pair Returned res None by (simp add: Check_def Let_def)
    qed
  qed
qed

lemma markAlive_neq_markSick: "markAlive r \<noteq> markSick r"
proof (cases "sick r")
  case False
  have "FailsCount (markAlive r) = FailsCount r"
    by (rule markAlive_FailsCount)
  moreover have "FailsCount (markSick r) = FailsCount r + 1"
    using False by (simp add: markSick_def Let_def)
  ultimately have "FailsCount (markAlive r) \<noteq> FailsCount (markSick r)"
    by simp
  then show ?thesis by auto
next
  case True
  then have s: "sick (markSick r)" by (rule markSick_keeps_sick)
  show ?thesis
  proof (cases "5 \<le> sint (successRate r + 1)")
    case yes: True
    then have "\<not> sick (markAlive r)"
      by (simp add: markAlive_def Let_def)
    then show ?thesis using s by auto
  next
    case no: False
    then have "sickRate (markAlive r) = sickRate r"
      by (simp add: markAlive_def Let_def)
    then have "sickRate (markAlive r) \<noteq> sickRate (markSick r)"
      by (simp add: markSick_sickRate)
    then show ?thesis by auto
  qed
qed

lemma GetInfo_info: "info (fst (GetInfo u r rt)) = info r"
  using GetInfo_state [of u r rt] by (auto simp add: markSick_info)

section \<open>Claims on the health-state machine\<close>

text \<open>
  C1. A client that is Alive with both streak counters at zero (every other field is
  arbitrary) is Sick after five consecutive failure notifications, and \<open>Sick()\<close> is
  still false after none, one, two, three and four of them: the fifth failure is the
  first at which \<open>Sick()\<close> returns true. Every failure path of \<open>doPost\<close> notifies
  through the same \<open>markSick\<close>.
\<close>

theorem five_failures_make_sick:
  assumes "\<not> sick r" and "sickRate r = 0" and "successRate r = 0"
  shows "Sick ((markSick ^^ 5) r) \<and> (\<forall>k<5. \<not> Sick ((markSick ^^ k) r))"
proof
  show "Sick ((markSick ^^ 5) r)"
    using assms by (simp add: eval_nat_numeral Sick_def markSick_def Let_def)
next
  show "\<forall>k<5. \<not> Sick ((markSick ^^ k) r)"
  proof (intro allI impI)
    fix k :: nat
    assume "k < 5"
    then consider "k = 0" | "k = Suc 0" | "k = 2" | "k = 3" | "k = 4"
      using less_five_cases by blast
    then show "\<not> Sick ((markSick ^^ k) r)"
      using assms by cases (simp_all add: eval_nat_numeral Sick_def markSick_def Let_def)
  qed
qed

theorem five_failures_make_sick_witness:
  "Sick ((markSick ^^ 5) (RPCClient_literal ''main'' (URL ''http://node:18081/json_rpc'')))
   \<and> \<not> Sick ((markSick ^^ 4) (RPCClient_literal ''main'' (URL ''http://node:18081/json_rpc'')))"
  using five_failures_make_sick
    [of "RPCClient_literal ''main'' (URL ''http://node:18081/json_rpc'')"]
  by (simp add: RPCClient_literal_def)

text \<open>
  C2, as the code has it. \<open>successRate\<close> holds the length \<open>j\<close> of the current
  run of consecutive successes: it is 0 right after any failure and below 5 in every
  reachable state. A Sick client with \<open>successRate = j\<close> becomes Alive after exactly
  \<open>5 - j\<close> further consecutive \<open>markAlive\<close> calls, \<open>sickRate\<close> and
  \<open>successRate\<close> are both zero right afterwards, and after fewer than \<open>5 - j\<close>
  such calls the client is still Sick. For \<open>j = 0\<close> these are exactly 5 calls.
  \<open>sickRate\<close> and every other field are arbitrary.
\<close>

theorem five_successes_make_alive:
  assumes "sick r" and "successRate r = of_nat j" and "j < 5"
  shows "(\<forall>k. k + j < 5 \<longrightarrow> Sick ((markAlive ^^ k) r))
       \<and> \<not> Sick ((markAlive ^^ (5 - j)) r)
       \<and> sickRate ((markAlive ^^ (5 - j)) r) = 0
       \<and> successRate ((markAlive ^^ (5 - j)) r) = 0"
proof -
  have still: "Sick ((markAlive ^^ k) r)" if "k + j < 5" for k
    using assms(1) markAlive_pow_below [OF assms(2) that] by (simp add: Sick_def)
  have "(4 - j) + j < 5" and four: "(4 - j) + j = 4"
    using assms(3) by simp_all
  then have "(markAlive ^^ (4 - j)) r = r\<lparr>successRate := 4\<rparr>"
    using markAlive_pow_below [OF assms(2), of "4 - j"] by simp
  moreover have "5 - j = Suc (4 - j)"
    using assms(3) by simp
  ultimately have "(markAlive ^^ (5 - j)) r = markAlive (r\<lparr>successRate := 4\<rparr>)"
    by simp
  then have "(markAlive ^^ (5 - j)) r = r\<lparr>successRate := 0, sickRate := 0, sick := False\<rparr>"
    by (simp add: markAlive_fifth)
  then show ?thesis
    using still by (simp add: Sick_def)
qed

theorem five_successes_make_alive_witness:
  "Sick ((markAlive ^^ 4) ((RPCClient_literal ''main'' (URL ''http://node:18081/json_rpc''))
           \<lparr>sickRate := 5, sick := True\<rparr>))
   \<and> \<not> Sick ((markAlive ^^ 5) ((RPCClient_literal ''main'' (URL ''http://node:18081/json_rpc''))
           \<lparr>sickRate := 5, sick := True\<rparr>))
   \<and> sickRate ((markAlive ^^ 5) ((RPCClient_literal ''main'' (URL ''http://node:18081/json_rpc''))
           \<lparr>sickRate := 5, sick := True\<rparr>)) = 0
   \<and> successRate ((markAlive ^^ 5) ((RPCClient_literal ''main'' (URL ''http://node:18081/json_rpc''))
           \<lparr>sickRate := 5, sick := True\<rparr>)) = 0"
  using five_successes_make_alive
    [of "(RPCClient_literal ''main'' (URL ''http://node:18081/json_rpc''))
           \<lparr>sickRate := 5, sick := True\<rparr>" 0]
  by (simp add: RPCClient_literal_def)

text \<open>
  C2 as stated fails for a Sick client whose run of successes has begun: after five
  failures and two successes the client is Sick with \<open>successRate = 2\<close>; three more
  successes, fewer than 5, already make it Alive, and after five more \<open>successRate\<close>
  is 2, not zero.
\<close>

theorem five_more_successes_counterexample:
  "Sick (notifications (RPCClient_literal ''main'' (URL ''http://node:18081/json_rpc''))
      [Failure, Failure, Failure, Failure, Failure, Success, Success])
   \<and> \<not> Sick ((markAlive ^^ 3)
      (notifications (RPCClient_literal ''main'' (URL ''http://node:18081/json_rpc''))
        [Failure, Failure, Failure, Failure, Failure, Success, Success]))
   \<and> successRate ((markAlive ^^ 5)
      (notifications (RPCClient_literal ''main'' (URL ''http://node:18081/json_rpc''))
        [Failure, Failure, Failure, Failure, Failure, Success, Success])) = 2"
  by (simp add: eval_nat_numeral RPCClient_literal_def Sick_def Let_def markSick_def markAlive_def)

text \<open>
  C3, as the code has it. In every state \<open>r\<close> reached from an initial client by any
  sequence of \<open>markSick\<close> and \<open>markAlive\<close>: \<open>successRate\<close> lies between 0 and 4;
  it is zero right after a \<open>markSick\<close>; a single \<open>markAlive\<close> after a failure only
  sets \<open>successRate\<close> to 1, so it leaves \<open>sickRate\<close> as it is and does not clear
  Sick; \<open>markAlive\<close> zeroes \<open>sickRate\<close> (together with \<open>successRate\<close>, clearing
  Sick) only as the fifth consecutive success, and otherwise changes neither
  \<open>sickRate\<close> nor \<open>sick\<close>.
\<close>

theorem streak_counters_after_notifications:
  assumes "\<not> sick r0" and "sickRate r0 = 0" and "successRate r0 = 0"
  shows "let r = notifications r0 es in
           0 \<le> sint (successRate r) \<and> sint (successRate r) \<le> 4
         \<and> successRate (markSick r) = 0
         \<and> markAlive (markSick r) = (markSick r)\<lparr>successRate := 1\<rparr>
         \<and> (successRate r = 4 \<longrightarrow>
              \<not> sick (markAlive r) \<and> sickRate (markAlive r) = 0 \<and> successRate (markAlive r) = 0)
         \<and> (successRate r \<noteq> 4 \<longrightarrow>
              sick (markAlive r) = sick r \<and> sickRate (markAlive r) = sickRate r
              \<and> successRate (markAlive r) = successRate r + 1)"
proof -
  define r where "r = notifications r0 es"
  have "counters_in_range r"
    unfolding r_def using assms
    by (intro counters_in_range_notifications counters_in_range_initial)
  then obtain i where i: "i < 5" "successRate r = of_nat i"
    unfolding counters_in_range_def by blast
  have bounds: "0 \<le> sint (successRate r) \<and> sint (successRate r) \<le> 4"
    using i by (simp add: sint_small)
  have fifth: "\<not> sick (markAlive r) \<and> sickRate (markAlive r) = 0 \<and> successRate (markAlive r) = 0"
    if "successRate r = 4"
    using that by (simp add: markAlive_fifth)
  have other: "sick (markAlive r) = sick r \<and> sickRate (markAlive r) = sickRate r
        \<and> successRate (markAlive r) = successRate r + 1" if ne: "successRate r \<noteq> 4"
  proof -
    have "i \<noteq> 4" using ne i(2) by auto
    then have "i < 4" using i(1) by simp
    with i(2) have "markAlive r = r\<lparr>successRate := of_nat (Suc i)\<rparr>"
      by (rule markAlive_below)
    then show ?thesis
      using i(2) by simp
  qed
  show ?thesis
    unfolding r_def [symmetric] Let_def
    using bounds fifth other by (simp add: markSick_successRate markAlive_after_markSick)
qed

theorem streak_counters_after_notifications_witness:
  "successRate (markSick (notifications
      (RPCClient_literal ''main'' (URL ''http://node:18081/json_rpc''))
      [Failure, Success, Success, Success, Success])) = 0
   \<and> \<not> sick (markAlive (notifications
      (RPCClient_literal ''main'' (URL ''http://node:18081/json_rpc''))
      [Failure, Success, Success, Success, Success]))
   \<and> sickRate (markAlive (notifications
      (RPCClient_literal ''main'' (URL ''http://node:18081/json_rpc''))
      [Failure, Success, Success, Success, Success])) = 0
   \<and> sickRate (markAlive (notifications
      (RPCClient_literal ''main'' (URL ''http://node:18081/json_rpc''))
      [Failure])) = 1"
  using streak_counters_after_notifications
    [of "RPCClient_literal ''main'' (URL ''http://node:18081/json_rpc'')"
        "[Failure, Success, Success, Success, Success]"]
    streak_counters_after_notifications
    [of "RPCClient_literal ''main'' (URL ''http://node:18081/json_rpc'')" "[Failure]"]
  by (simp add: RPCClient_literal_def Let_def markSick_def markAlive_def)

text \<open>
  C3 as stated fails: after one failure and one success both counters are 1, so
  \<open>markAlive\<close> did not reset \<open>sickRate\<close> and two counters are non-zero at once.
\<close>

theorem one_counter_nonzero_counterexample:
  "\<not> (sickRate (notifications
          (RPCClient_literal ''main'' (URL ''http://node:18081/json_rpc''))
          [Failure, Success]) = 0
      \<or> successRate (notifications
          (RPCClient_literal ''main'' (URL ''http://node:18081/json_rpc''))
          [Failure, Success]) = 0)"
  by (simp add: RPCClient_literal_def Let_def markSick_def markAlive_def)

text \<open>
  C4, as the code has it. In every state \<open>r\<close> reached from an initial client,
  \<open>FailsCount\<close> goes up by one at each single failure for as long as the client is not
  Sick: a run of \<open>n\<close> consecutive failures starting at a not-Sick \<open>r\<close> adds
  \<open>min n (5 - sickRate r)\<close>, the number of failures up to the one that turns the client
  Sick. Failures of a Sick client and successes leave \<open>FailsCount\<close> alone.
\<close>

theorem FailsCount_counts_failures_until_sick:
  assumes "\<not> sick r0" and "sickRate r0 = 0" and "successRate r0 = 0"
  shows "let r = notifications r0 es in
           (\<not> sick r \<longrightarrow>
              FailsCount ((markSick ^^ n) r)
                = FailsCount r + of_nat (min n (5 - nat (sint (sickRate r)))))
         \<and> (sick r \<longrightarrow> FailsCount ((markSick ^^ n) r) = FailsCount r)
         \<and> FailsCount (markAlive r) = FailsCount r"
proof -
  define r where "r = notifications r0 es"
  have "counters_in_range r"
    unfolding r_def using assms
    by (intro counters_in_range_notifications counters_in_range_initial)
  then have range: "sick r \<or> (\<exists>j<5. sickRate r = of_nat j)"
    unfolding counters_in_range_def by blast
  have "FailsCount ((markSick ^^ n) r)
          = FailsCount r + of_nat (min n (5 - nat (sint (sickRate r))))" if alive: "\<not> sick r"
  proof -
    obtain j where j: "j < 5" "sickRate r = of_nat j"
      using range alive by blast
    have "nat (sint (sickRate r)) = j"
      using j by (simp add: sint_small)
    then show ?thesis
      using failure_run_FailsCount [OF alive j(2) j(1), of n] by simp
  qed
  then show ?thesis
    unfolding r_def [symmetric] Let_def
    by (simp add: markSick_pow_sick_FailsCount markAlive_FailsCount)
qed

theorem FailsCount_counts_failures_until_sick_witness:
  "FailsCount ((markSick ^^ 7) (notifications
      (RPCClient_literal ''main'' (URL ''http://node:18081/json_rpc'')) [Failure, Success]))
   = 5"
  using FailsCount_counts_failures_until_sick
    [of "RPCClient_literal ''main'' (URL ''http://node:18081/json_rpc'')" "[Failure, Success]" 7]
  by (simp add: RPCClient_literal_def Let_def markSick_def markAlive_def)

text \<open>
  C4 as stated fails: one run of two failures from a fresh, not-Sick client raises
  \<open>FailsCount\<close> by 2, more than the single increment per failure streak.
\<close>

theorem FailsCount_once_per_streak_counterexample:
  "\<not> sick (RPCClient_literal ''main'' (URL ''http://node:18081/json_rpc''))
   \<and> \<not> sint (FailsCount (notifications
            (RPCClient_literal ''main'' (URL ''http://node:18081/json_rpc''))
            [Failure, Failure])
          - FailsCount (RPCClient_literal ''main'' (URL ''http://node:18081/json_rpc''))) \<le> 1"
  by (simp add: RPCClient_literal_def Let_def markSick_def)

section \<open>Claims on the calls\<close>




text \<open>
  C6. When GetBlockTemplate, GetInfo, GetBlockCount, SubmitBlock or
  GetBlockHeaderByHeight returns with a nil error, the client is unchanged. Whatever
  their outcome, these calls end in \<open>r\<close> or in \<open>markSick r\<close>, and \<open>markAlive r\<close> is
  neither: they never drive the success transition. \<open>Check\<close>, when it returns a nil
  error, ends in \<open>markAlive r\<close> and returns the negation of \<open>Sick()\<close> in that state.
\<close>

theorem successful_calls_leave_health_state:
  "(snd (GetBlockTemplate u1 r rt) = Returned (x1, None) \<longrightarrow> fst (GetBlockTemplate u1 r rt) = r)
   \<and> (snd (GetInfo u2 r rt) = Returned (x2, None) \<longrightarrow> fst (GetInfo u2 r rt) = r)
   \<and> (snd (GetBlockCount u3 r rt) = Returned (x3, None) \<longrightarrow> fst (GetBlockCount u3 r rt) = r)
   \<and> (snd (SubmitBlock r rt) = Returned (x4, None) \<longrightarrow> fst (SubmitBlock r rt) = r)
   \<and> (snd (GetBlockHeaderByHeight u5 r rt) = Returned (x5, None) \<longrightarrow>
        fst (GetBlockHeaderByHeight u5 r rt) = r)
   \<and> fst (GetBlockTemplate u1 r rt) \<in> {r, markSick r}
   \<and> fst (GetInfo u2 r rt) \<in> {r, markSick r}
   \<and> fst (GetBlockCount u3 r rt) \<in> {r, markSick r}
   \<and> fst (SubmitBlock r rt) \<in> {r, markSick r}
   \<and> fst (GetBlockHeaderByHeight u5 r rt) \<in> {r, markSick r}
   \<and> markAlive r \<notin> {r, markSick r}
   \<and> (snd (Check u1 r rt) = Returned (b, None) \<longrightarrow>
        fst (Check u1 r rt) = markAlive r \<and> b = (\<not> Sick (markAlive r)))"
proof (intro conjI impI)
  show "markAlive r \<notin> {r, markSick r}"
    using markAlive_neq [of r] markAlive_neq_markSick [of r] by simp
  show "fst (Check u1 r rt) = markAlive r" and "b = (\<not> Sick (markAlive r))"
    if "snd (Check u1 r rt) = Returned (b, None)"
    using Check_no_error [OF that] by simp_all
qed (simp_all only: GetBlockTemplate_no_error GetInfo_no_error GetBlockCount_no_error
      SubmitBlock_no_error GetBlockHeaderByHeight_no_error GetBlockTemplate_state GetInfo_state
      GetBlockCount_state SubmitBlock_state GetBlockHeaderByHeight_state)

theorem successful_calls_leave_health_state_witness:
  "fst (GetBlockTemplate
      (\<lambda>raw. (Some \<lparr>Difficulty = 1000, Height = 100, Blob = ''0102'', ReservedOffset = 130,
                      PrevHash = ''ab'', ExpectedReward = 600000000000\<rparr>, None))
      ((SetClient (RPCClient_literal ''main'' (URL ''http://node:18081/json_rpc'')) \<lparr>Timeout = 0\<rparr>)\<lparr>sickRate := 2\<rparr>)
      (DoResponse 200 ''200 OK'' (Decoded (Some
          \<lparr>Id = Some ''0'', Result = Some ''{}'', Error = None\<rparr>))))
     = (SetClient (RPCClient_literal ''main'' (URL ''http://node:18081/json_rpc'')) \<lparr>Timeout = 0\<rparr>)\<lparr>sickRate := 2\<rparr>
   \<and> fst (GetInfo
      (\<lambda>raw. (Some \<lparr>IncomingConnections = 0, OutgoingConnections = 8, InfoHeight = 100,
                      TxPoolSize = 0, Status = ''OK''\<rparr>, None))
      ((SetClient (RPCClient_literal ''main'' (URL ''http://node:18081/json_rpc'')) \<lparr>Timeout = 0\<rparr>)\<lparr>sickRate := 2\<rparr>)
      (DoResponse 200 ''200 OK'' (Decoded (Some
          \<lparr>Id = Some ''0'', Result = Some ''{}'', Error = None\<rparr>))))
     = (SetClient (RPCClient_literal ''main'' (URL ''http://node:18081/json_rpc'')) \<lparr>Timeout = 0\<rparr>)\<lparr>sickRate := 2\<rparr>
   \<and> fst (GetBlockCount (\<lambda>raw. (Some \<lparr>Count = 100, CountStatus = ''OK''\<rparr>, None))
      ((SetClient (RPCClient_literal ''main'' (URL ''http://node:18081/json_rpc'')) \<lparr>Timeout = 0\<rparr>)\<lparr>sickRate := 2\<rparr>)
      (DoResponse 200 ''200 OK'' (Decoded (Some
          \<lparr>Id = Some ''0'', Result = Some ''{}'', Error = None\<rparr>))))
     = (SetClient (RPCClient_literal ''main'' (URL ''http://node:18081/json_rpc'')) \<lparr>Timeout = 0\<rparr>)\<lparr>sickRate := 2\<rparr>
   \<and> fst (SubmitBlock
      ((SetClient (RPCClient_literal ''main'' (URL ''http://node:18081/json_rpc'')) \<lparr>Timeout = 0\<rparr>)\<lparr>sickRate := 2\<rparr>)
      (DoResponse 200 ''200 OK'' (Decoded (Some
          \<lparr>Id = Some ''0'', Result = Some ''{}'', Error = None\<rparr>))))
     = (SetClient (RPCClient_literal ''main'' (URL ''http://node:18081/json_rpc'')) \<lparr>Timeout = 0\<rparr>)\<lparr>sickRate := 2\<rparr>
   \<and> fst (GetBlockHeaderByHeight
      (\<lambda>raw. (Some \<lparr>BlockHeader = \<lparr>BlockSize = 80, Depth = 0, HeaderDifficulty = 1000, Hash = ''cd'',
                      HeaderHeight = 99, MajorVersion = 1, MinorVersion = 0, Nonce = 7, NumTxes = 0,
                      OrphanStatus = False, HeaderPrevHash = ''ab'', Reward = 600000000000,
                      Timestamp = 1500000000\<rparr>, HeaderStatus = ''OK'', Untrusted = False\<rparr>, None))
      ((SetClient (RPCClient_literal ''main'' (URL ''http://node:18081/json_rpc'')) \<lparr>Timeout = 0\<rparr>)\<lparr>sickRate := 2\<rparr>)
      (DoResponse 200 ''200 OK'' (Decoded (Some
          \<lparr>Id = Some ''0'', Result = Some ''{}'', Error = None\<rparr>))))
     = (SetClient (RPCClient_literal ''main'' (URL ''http://node:18081/json_rpc'')) \<lparr>Timeout = 0\<rparr>)\<lparr>sickRate := 2\<rparr>
   \<and> Check
      (\<lambda>raw. (Some \<lparr>Difficulty = 1000, Height = 100, Blob = ''0102'', ReservedOffset = 130,
                      PrevHash = ''ab'', ExpectedReward = 600000000000\<rparr>, None))
      ((SetClient (RPCClient_literal ''main'' (URL ''http://node:18081/json_rpc'')) \<lparr>Timeout = 0\<rparr>)\<lparr>sickRate := 2\<rparr>)
      (DoResponse 200 ''200 OK'' (Decoded (Some
          \<lparr>Id = Some ''0'', Result = Some ''{}'', Error = None\<rparr>)))
     = (markAlive ((SetClient (RPCClient_literal ''main'' (URL ''http://node:18081/json_rpc'')) \<lparr>Timeout = 0\<rparr>)
                     \<lparr>sickRate := 2\<rparr>),
        Returned (True, None))"
  using successful_calls_leave_health_state
    [of "\<lambda>raw. (Some \<lparr>Difficulty = 1000, Height = 100, Blob = ''0102'', ReservedOffset = 130,
                      PrevHash = ''ab'', ExpectedReward = 600000000000\<rparr>, None)"
        "(SetClient (RPCClient_literal ''main'' (URL ''http://node:18081/json_rpc'')) \<lparr>Timeout = 0\<rparr>)\<lparr>sickRate := 2\<rparr>"
        "DoResponse 200 ''200 OK'' (Decoded (Some
          \<lparr>Id = Some ''0'', Result = Some ''{}'', Error = None\<rparr>))"
        "Some \<lparr>Difficulty = 1000, Height = 100, Blob = ''0102'', ReservedOffset = 130,
                      PrevHash = ''ab'', ExpectedReward = 600000000000\<rparr>"
        "\<lambda>raw. (Some \<lparr>IncomingConnections = 0, OutgoingConnections = 8, InfoHeight = 100,
                      TxPoolSize = 0, Status = ''OK''\<rparr>, None)"
        "Some \<lparr>IncomingConnections = 0, OutgoingConnections = 8, InfoHeight = 100,
                      TxPoolSize = 0, Status = ''OK''\<rparr>"
        "\<lambda>raw. (Some \<lparr>Count = 100, CountStatus = ''OK''\<rparr>, None)"
        "Some \<lparr>Count = 100, CountStatus = ''OK''\<rparr>"
        "Some \<lparr>Id = Some ''0'', Result = Some ''{}'', Error = None\<rparr>"
        "\<lambda>raw. (Some \<lparr>BlockHeader = \<lparr>BlockSize = 80, Depth = 0, HeaderDifficulty = 1000, Hash = ''cd'',
                      HeaderHeight = 99, MajorVersion = 1, MinorVersion = 0, Nonce = 7, NumTxes = 0,
                      OrphanStatus = False, HeaderPrevHash = ''ab'', Reward = 600000000000,
                      Timestamp = 1500000000\<rparr>, HeaderStatus = ''OK'', Untrusted = False\<rparr>, None)"
        "Some \<lparr>BlockHeader = \<lparr>BlockSize = 80, Depth = 0, HeaderDifficulty = 1000, Hash = ''cd'',
                      HeaderHeight = 99, MajorVersion = 1, MinorVersion = 0, Nonce = 7, NumTxes = 0,
                      OrphanStatus = False, HeaderPrevHash = ''ab'', Reward = 600000000000,
                      Timestamp = 1500000000\<rparr>, HeaderStatus = ''OK'', Untrusted = False\<rparr>" True]
  by (simp add: doPost_def GetBlockTemplate_def GetInfo_def GetBlockCount_def SubmitBlock_def
      GetBlockHeaderByHeight_def Check_def Let_def Sick_def markAlive_def RPCClient_literal_def SetClient_def)

text \<open>
  C7. When \<open>doPost\<close> returns a response and no error, and the response's \<open>Result\<close>
  is nil, each of GetBlockTemplate, GetInfo, GetBlockCount and GetBlockHeaderByHeight
  returns a nil reply together with a nil error (and not an error return), whatever
  \<open>json.Unmarshal\<close> would have done.
\<close>

theorem absent_result_gives_nil_reply:
  "doPost r rt = (r', Returned (Some resp, None)) \<and> Result resp = None \<longrightarrow>
     GetBlockTemplate u1 r rt = (r', Returned (None, None))
     \<and> GetInfo u2 r rt = (r', Returned (None, None))
     \<and> GetBlockCount u3 r rt = (r', Returned (None, None))
     \<and> GetBlockHeaderByHeight u5 r rt = (r', Returned (None, None))"
  by (simp add: GetBlockTemplate_def GetInfo_def GetBlockCount_def GetBlockHeaderByHeight_def)

theorem absent_result_gives_nil_reply_witness:
  "GetBlockTemplate (\<lambda>raw. (None, Some (errors_New ''unused'')))
      (SetClient (RPCClient_literal ''main'' (URL ''http://node:18081/json_rpc'')) \<lparr>Timeout = 0\<rparr>)
      (DoResponse 200 ''200 OK'' (Decoded (Some \<lparr>Id = Some ''0'', Result = None, Error = None\<rparr>)))
     = (SetClient (RPCClient_literal ''main'' (URL ''http://node:18081/json_rpc'')) \<lparr>Timeout = 0\<rparr>, Returned (None, None))
   \<and> GetInfo (\<lambda>raw. (None, Some (errors_New ''unused'')))
      (SetClient (RPCClient_literal ''main'' (URL ''http://node:18081/json_rpc'')) \<lparr>Timeout = 0\<rparr>)
      (DoResponse 200 ''200 OK'' (Decoded (Some \<lparr>Id = Some ''0'', Result = None, Error = None\<rparr>)))
     = (SetClient (RPCClient_literal ''main'' (URL ''http://node:18081/json_rpc'')) \<lparr>Timeout = 0\<rparr>, Returned (None, None))
   \<and> GetBlockCount (\<lambda>raw. (None, Some (errors_New ''unused'')))
      (SetClient (RPCClient_literal ''main'' (URL ''http://node:18081/json_rpc'')) \<lparr>Timeout = 0\<rparr>)
      (DoResponse 200 ''200 OK'' (Decoded (Some \<lparr>Id = Some ''0'', Result = None, Error = None\<rparr>)))
     = (SetClient (RPCClient_literal ''main'' (URL ''http://node:18081/json_rpc'')) \<lparr>Timeout = 0\<rparr>, Returned (None, None))
   \<and> GetBlockHeaderByHeight (\<lambda>raw. (None, Some (errors_New ''unused'')))
      (SetClient (RPCClient_literal ''main'' (URL ''http://node:18081/json_rpc'')) \<lparr>Timeout = 0\<rparr>)
      (DoResponse 200 ''200 OK'' (Decoded (Some \<lparr>Id = Some ''0'', Result = None, Error = None\<rparr>)))
     = (SetClient (RPCClient_literal ''main'' (URL ''http://node:18081/json_rpc'')) \<lparr>Timeout = 0\<rparr>, Returned (None, None))"
  using absent_result_gives_nil_reply
    [of "SetClient (RPCClient_literal ''main'' (URL ''http://node:18081/json_rpc'')) \<lparr>Timeout = 0\<rparr>"
        "DoResponse 200 ''200 OK'' (Decoded (Some \<lparr>Id = Some ''0'', Result = None, Error = None\<rparr>))"
        "SetClient (RPCClient_literal ''main'' (URL ''http://node:18081/json_rpc'')) \<lparr>Timeout = 0\<rparr>"
        "\<lparr>Id = Some ''0'', Result = None, Error = None\<rparr>"
        "\<lambda>raw. (None, Some (errors_New ''unused''))"
        "\<lambda>raw. (None, Some (errors_New ''unused''))"
        "\<lambda>raw. (None, Some (errors_New ''unused''))"
        "\<lambda>raw. (None, Some (errors_New ''unused''))"]
  by (simp add: doPost_def SetClient_def)

text \<open>
  C8. \<open>UpdateInfo\<close> returns what \<open>GetInfo\<close> returned. With an error, the
  \<open>atomic.Value\<close> is left as it was, so \<open>Info()\<close> gives the same value as before;
  without one, the new reply is stored whole and is what \<open>Info()\<close> gives afterwards.
\<close>

theorem UpdateInfo_snapshot:
  "(snd (GetInfo u r rt) = Returned (reply, Some err) \<longrightarrow>
      snd (UpdateInfo u r rt) = Returned (reply, Some err)
      \<and> info (fst (UpdateInfo u r rt)) = info r
      \<and> Info (fst (UpdateInfo u r rt)) = Info r)
   \<and> (snd (GetInfo u r rt) = Returned (reply, None) \<longrightarrow>
      snd (UpdateInfo u r rt) = Returned (reply, None)
      \<and> info (fst (UpdateInfo u r rt)) = Some reply
      \<and> Info (fst (UpdateInfo u r rt)) = reply)"
proof (cases "GetInfo u r rt")
  case (Pair r' out)
  then have "info r' = info r"
    using GetInfo_info [of u r rt] by simp
  then show ?thesis
    using Pair by (auto simp add: UpdateInfo_def Info_def)
qed

theorem UpdateInfo_snapshot_witness:
  "Info (fst (UpdateInfo
      (\<lambda>raw. (Some \<lparr>IncomingConnections = 0, OutgoingConnections = 8, InfoHeight = 100,
                      TxPoolSize = 0, Status = ''OK''\<rparr>, None))
      (SetClient (RPCClient_literal ''main'' (URL ''http://node:18081/json_rpc'')) \<lparr>Timeout = 0\<rparr>)
      (DoResponse 200 ''200 OK'' (Decoded (Some
          \<lparr>Id = Some ''0'', Result = Some ''{height:100,status:OK}'', Error = None\<rparr>)))))
     = Some \<lparr>IncomingConnections = 0, OutgoingConnections = 8, InfoHeight = 100,
             TxPoolSize = 0, Status = ''OK''\<rparr>
   \<and> Info (fst (UpdateInfo
      (\<lambda>raw. (None, Some (errors_New ''unexpected end of JSON input'')))
      ((SetClient (RPCClient_literal ''main'' (URL ''http://node:18081/json_rpc'')) \<lparr>Timeout = 0\<rparr>)
         \<lparr>info := Some (Some \<lparr>IncomingConnections = 0, OutgoingConnections = 8, InfoHeight = 100,
             TxPoolSize = 0, Status = ''OK''\<rparr>)\<rparr>)
      (DoResponse 200 ''200 OK'' (Decoded (Some
          \<lparr>Id = Some ''0'', Result = Some ''{height:'', Error = None\<rparr>)))))
     = Some \<lparr>IncomingConnections = 0, OutgoingConnections = 8, InfoHeight = 100,
             TxPoolSize = 0, Status = ''OK''\<rparr>"
  using
    UpdateInfo_snapshot
      [of "\<lambda>raw. (Some \<lparr>IncomingConnections = 0, OutgoingConnections = 8, InfoHeight = 100,
                      TxPoolSize = 0, Status = ''OK''\<rparr>, None)"
          "SetClient (RPCClient_literal ''main'' (URL ''http://node:18081/json_rpc'')) \<lparr>Timeout = 0\<rparr>"
          "DoResponse 200 ''200 OK'' (Decoded (Some
             \<lparr>Id = Some ''0'', Result = Some ''{height:100,status:OK}'', Error = None\<rparr>))"
          "Some \<lparr>IncomingConnections = 0, OutgoingConnections = 8, InfoHeight = 100,
                      TxPoolSize = 0, Status = ''OK''\<rparr>"]
    UpdateInfo_snapshot
      [of "\<lambda>raw. (None, Some (errors_New ''unexpected end of JSON input''))"
          "(SetClient (RPCClient_literal ''main'' (URL ''http://node:18081/json_rpc'')) \<lparr>Timeout = 0\<rparr>)
             \<lparr>info := Some (Some \<lparr>IncomingConnections = 0, OutgoingConnections = 8, InfoHeight = 100,
                 TxPoolSize = 0, Status = ''OK''\<rparr>)\<rparr>"
          "DoResponse 200 ''200 OK'' (Decoded (Some
             \<lparr>Id = Some ''0'', Result = Some ''{height:'', Error = None\<rparr>))"
          None "errors_New ''unexpected end of JSON input''"]
  by (simp add: doPost_def GetInfo_def UpdateInfo_def Info_def RPCClient_literal_def SetClient_def)

text \<open>
  C9. \<open>NewRPCClient\<close> returns an error exactly when \<open>url.Parse\<close> rejects
  \<open>http://host:port/json_rpc\<close>, and then returns that error and no client. When the URL
  parses and \<open>time.ParseDuration\<close> rejects the timeout string, construction still
  succeeds: the client is the fresh literal with an HTTP client of timeout zero.
\<close>

theorem NewRPCClient_fails_only_on_url:
  "(snd (NewRPCClient fmt_v url_Parse time_ParseDuration cfg) \<noteq> None
      \<longleftrightarrow> (\<exists>err. url_Parse (''http://'' @ Host cfg @ '':'' @ fmt_v (Port cfg) @ ''/json_rpc'')
                   = Inl err))
   \<and> (\<forall>err. url_Parse (''http://'' @ Host cfg @ '':'' @ fmt_v (Port cfg) @ ''/json_rpc'') = Inl err
        \<longrightarrow> NewRPCClient fmt_v url_Parse time_ParseDuration cfg = (None, Some err))
   \<and> (\<forall>url e. url_Parse (''http://'' @ Host cfg @ '':'' @ fmt_v (Port cfg) @ ''/json_rpc'') = Inr url
        \<and> time_ParseDuration (UpstreamTimeout cfg) = Inl e
        \<longrightarrow> NewRPCClient fmt_v url_Parse time_ParseDuration cfg
              = (Some ((RPCClient_literal (UpstreamName cfg) url)\<lparr>client := Some \<lparr>Timeout = 0\<rparr>\<rparr>),
                 None))"
  by (auto simp add: NewRPCClient_def SetClient_def Let_def split: sum.splits)

theorem NewRPCClient_fails_only_on_url_witness:
  "NewRPCClient (\<lambda>p :: nat. ''18081'') (\<lambda>s. Inr (URL s))
      (\<lambda>s. Inl (errors_New ''time: invalid duration''))
      \<lparr>Host = ''node'', Port = 18081, UpstreamName = ''main'', UpstreamTimeout = ''soon''\<rparr>
     = (Some ((RPCClient_literal ''main'' (URL ''http://node:18081/json_rpc''))
                \<lparr>client := Some \<lparr>Timeout = 0\<rparr>\<rparr>), None)
   \<and> NewRPCClient (\<lambda>p :: nat. ''18081'') (\<lambda>s. Inl (errors_New ''parse: invalid character in host name''))
      (\<lambda>s. Inr 10000000000)
      \<lparr>Host = ''bad host'', Port = 18081, UpstreamName = ''main'', UpstreamTimeout = ''10s''\<rparr>
     = (None, Some (errors_New ''parse: invalid character in host name''))"
  using
    NewRPCClient_fails_only_on_url
      [of "\<lambda>p :: nat. ''18081''" "\<lambda>s. Inr (URL s)" "\<lambda>s. Inl (errors_New ''time: invalid duration'')"
          "\<lparr>Host = ''node'', Port = 18081, UpstreamName = ''main'', UpstreamTimeout = ''soon''\<rparr>"]
    NewRPCClient_fails_only_on_url
      [of "\<lambda>p :: nat. ''18081''" "\<lambda>s. Inl (errors_New ''parse: invalid character in host name'')"
          "\<lambda>s. Inr 10000000000"
          "\<lparr>Host = ''bad host'', Port = 18081, UpstreamName = ''main'', UpstreamTimeout = ''10s''\<rparr>"]
  by (simp add: NewRPCClient_def SetClient_def Let_def)

text \<open>
  C10. For a response in the status range whose envelope has a non-nil error object:
  if the object maps \<open>message\<close> to a string, \<open>doPost\<close> returns the error with that
  message; if the key is absent or its value is not a string, the type assertion
  panics, after \<open>markSick\<close> has run, and nothing is returned.
\<close>

theorem doPost_application_error_message:
  "200 \<le> code \<and> code < 400 \<and> Error resp = Some e \<longrightarrow>
     (\<forall>m. e ''message'' = Some (JString m) \<longrightarrow>
        doPost r (DoResponse code status (Decoded (Some resp)))
          = (markSick r, Returned (None, Some (errors_New m))))
     \<and> ((\<forall>m. e ''message'' \<noteq> Some (JString m)) \<longrightarrow>
        doPost r (DoResponse code status (Decoded (Some resp)))
          = (markSick r, Panicked InterfaceConversion))"
  by (simp add: doPost_app_error_message doPost_app_error_panic)

theorem doPost_application_error_message_witness:
  "doPost (SetClient (RPCClient_literal ''main'' (URL ''http://node:18081/json_rpc'')) \<lparr>Timeout = 0\<rparr>)
      (DoResponse 200 ''200 OK'' (Decoded (Some
         \<lparr>Id = None, Result = None, Error = Some [''message'' \<mapsto> JString ''Invalid params'']\<rparr>)))
     = (markSick (SetClient (RPCClient_literal ''main'' (URL ''http://node:18081/json_rpc'')) \<lparr>Timeout = 0\<rparr>),
        Returned (None, Some (errors_New ''Invalid params'')))
   \<and> doPost (SetClient (RPCClient_literal ''main'' (URL ''http://node:18081/json_rpc'')) \<lparr>Timeout = 0\<rparr>)
      (DoResponse 200 ''200 OK'' (Decoded (Some
         \<lparr>Id = None, Result = None, Error = Some [''code'' \<mapsto> JNull]\<rparr>)))
     = (markSick (SetClient (RPCClient_literal ''main'' (URL ''http://node:18081/json_rpc'')) \<lparr>Timeout = 0\<rparr>),
        Panicked InterfaceConversion)
   \<and> doPost (SetClient (RPCClient_literal ''main'' (URL ''http://node:18081/json_rpc'')) \<lparr>Timeout = 0\<rparr>)
      (DoResponse 200 ''200 OK'' (Decoded (Some
         \<lparr>Id = None, Result = None, Error = Some [''message'' \<mapsto> JBool False]\<rparr>)))
     = (markSick (SetClient (RPCClient_literal ''main'' (URL ''http://node:18081/json_rpc'')) \<lparr>Timeout = 0\<rparr>),
        Panicked InterfaceConversion)"
  using
    doPost_application_error_message
      [of 200 "\<lparr>Id = None, Result = None, Error = Some [''message'' \<mapsto> JString ''Invalid params'']\<rparr>"
          "[''message'' \<mapsto> JString ''Invalid params'']"
          "SetClient (RPCClient_literal ''main'' (URL ''http://node:18081/json_rpc'')) \<lparr>Timeout = 0\<rparr>" "''200 OK''"]
    doPost_application_error_message
      [of 200 "\<lparr>Id = None, Result = None, Error = Some [''code'' \<mapsto> JNull]\<rparr>"
          "[''code'' \<mapsto> JNull]"
          "SetClient (RPCClient_literal ''main'' (URL ''http://node:18081/json_rpc'')) \<lparr>Timeout = 0\<rparr>" "''200 OK''"]
    doPost_application_error_message
      [of 200 "\<lparr>Id = None, Result = None, Error = Some [''message'' \<mapsto> JBool False]\<rparr>"
          "[''message'' \<mapsto> JBool False]"
          "SetClient (RPCClient_literal ''main'' (URL ''http://node:18081/json_rpc'')) \<lparr>Timeout = 0\<rparr>" "''200 OK''"]
  by (simp add: doPost_def SetClient_def)

end
